theory Spec2Isabelle
  imports Main "HOL-Library.Word"
begin

unbundle bit_operations_syntax

section \<open>tools/bench.py: the benchmark orchestrator\<close>

text \<open>
  The script resolves a bench selection against one of two module-level tables, builds one
  \<^verbatim>\<open>cargo bench\<close> command per target, runs the commands one after the other with
  \<^verbatim>\<open>subprocess.call\<close> and returns the bitwise OR of their return codes.

  What the script does to the outside is made explicit:
  \<^item> output and child processes are events appended to a trace kept in the \<open>world\<close>;
  \<^item> \<^verbatim>\<open>os.environ\<close> and the dictionaries the script allocates live in a small store,
    so that a copy and an alias are different things in the model;
  \<^item> the return code of a child is not decided by the script: it is given by a
    parameter \<open>ch\<close> that sees the whole trace so far, the argument vector and the
    environment of the child;
  \<^item> a raised exception is a value of type \<open>py_error\<close>, on the left of a sum.
\<close>

subsection \<open>Python values\<close>

text \<open>
  A \<^verbatim>\<open>dict[str, str]\<close> is the list of its items in insertion order; the keys of a
  dictionary are distinct. Python's \<^verbatim>\<open>int\<close> is unbounded, and so is \<open>int\<close>; \<open>OR\<close> on
  \<open>int\<close> is the two's complement disjunction that Python's \<^verbatim>\<open>|\<close> computes.
\<close>

type_synonym dict = "(string \<times> string) list"

datatype py_error = KeyError string | SystemExit int

text \<open>\<^verbatim>\<open>d.get(k, default)\<close>\<close>

definition dict_get :: "dict \<Rightarrow> string \<Rightarrow> string \<Rightarrow> string" where
  "dict_get d k dflt = (case map_of d k of None \<Rightarrow> dflt | Some v \<Rightarrow> v)"

text \<open>\<^verbatim>\<open>d[k] = v\<close>: an existing key keeps its place, a new key goes last.\<close>

fun dict_setitem :: "string \<Rightarrow> string \<Rightarrow> dict \<Rightarrow> dict" where
  "dict_setitem k v [] = [(k, v)]"
| "dict_setitem k v (kv # d) =
     (if fst kv = k then (k, v) # d else kv # dict_setitem k v d)"

text \<open>\<^verbatim>\<open>d[k]\<close>, which raises \<^verbatim>\<open>KeyError(k)\<close> on a missing key.\<close>

definition dict_getitem :: "dict \<Rightarrow> string \<Rightarrow> py_error + string" where
  "dict_getitem d k = (case map_of d k of None \<Rightarrow> Inl (KeyError k) | Some v \<Rightarrow> Inr v)"

text \<open>\<^verbatim>\<open>' '.join(xs)\<close>\<close>

fun join :: "string list \<Rightarrow> string" where
  "join [] = []"
| "join [x] = x"
| "join (x # y # ys) = x @ '' '' @ join (y # ys)"

text \<open>The format specification \<^verbatim>\<open>{k:12}\<close> of a string: padded with spaces on the
  right to twelve characters, and left as it is when it is longer.\<close>

definition ljust :: "nat \<Rightarrow> string \<Rightarrow> string" where
  "ljust n s = s @ replicate (n - length s) CHR '' ''"

subsection \<open>The registries (lines 31 to 41)\<close>

definition CRITERION_BENCHES :: dict where
  "CRITERION_BENCHES =
     [(''pipeline'', ''criterion_pipeline''),
      (''transformers'', ''criterion_transformers''),
      (''io'', ''criterion_io'')]"

definition DHAT_BENCHES :: dict where
  "DHAT_BENCHES =
     [(''build'', ''dhat_build''),
      (''transformers'', ''dhat_transformers''),
      (''compress'', ''dhat_compress'')]"

subsection \<open>benches_to_run (lines 117 to 120)\<close>

text \<open>\<^verbatim>\<open>list(table.values())\<close> is the second components in insertion order;
  \<^verbatim>\<open>table[selected]\<close> raises on a key that is not there.\<close>

definition benches_to_run :: "string \<Rightarrow> dict \<Rightarrow> py_error + string list" where
  "benches_to_run selected table =
     (if selected = ''all'' then Inr (map snd table)
      else case dict_getitem table selected of
             Inl e \<Rightarrow> Inl e
           | Inr v \<Rightarrow> Inr [v])"

subsection \<open>The world outside the script\<close>

text \<open>
  A dictionary object is referred to by a reference: \<open>Environ\<close> is \<^verbatim>\<open>os.environ\<close>, and
  \<open>Dict i\<close> is the \<open>i\<close>-th dictionary the script has allocated. Writing through a
  reference changes the object it refers to, whichever it is.
\<close>

datatype ref = Environ | Dict nat

text \<open>
  An event of the trace: a line printed to standard output or to standard error (the
  text given to \<^verbatim>\<open>print\<close>, without the newline it adds), or a child process that ran
  to its end, with its argument vector, the environment it was started in and its return
  code. Every child is started with \<^verbatim>\<open>cwd=REPO_ROOT\<close>, which is the same in every call
  and is left out of the event.
\<close>

datatype event = Stdout string | Stderr string | Spawn "string list" dict int

record world =
  environ :: dict
  dicts :: "nat \<Rightarrow> dict"
  ndicts :: nat
  events :: "event list"

type_synonym child = "event list \<Rightarrow> string list \<Rightarrow> dict \<Rightarrow> int"

definition deref :: "world \<Rightarrow> ref \<Rightarrow> dict" where
  "deref w r = (case r of Environ \<Rightarrow> environ w | Dict i \<Rightarrow> dicts w i)"

text \<open>\<^verbatim>\<open>r.copy()\<close>: a new dictionary object with the items of \<open>r\<close>.\<close>

definition dict_copy :: "ref \<Rightarrow> world \<Rightarrow> ref \<times> world" where
  "dict_copy r w =
     (Dict (ndicts w),
      w\<lparr>dicts := (dicts w)(ndicts w := deref w r), ndicts := Suc (ndicts w)\<rparr>)"

text \<open>\<^verbatim>\<open>r[k] = v\<close> on the object \<open>r\<close> refers to.\<close>

definition ref_setitem :: "ref \<Rightarrow> string \<Rightarrow> string \<Rightarrow> world \<Rightarrow> world" where
  "ref_setitem r k v w =
     (case r of
        Environ \<Rightarrow> w\<lparr>environ := dict_setitem k v (environ w)\<rparr>
      | Dict i \<Rightarrow> w\<lparr>dicts := (dicts w)(i := dict_setitem k v (dicts w i))\<rparr>)"

definition print_out :: "string \<Rightarrow> world \<Rightarrow> world" where
  "print_out s w = w\<lparr>events := events w @ [Stdout s]\<rparr>"

definition print_err :: "string \<Rightarrow> world \<Rightarrow> world" where
  "print_err s w = w\<lparr>events := events w @ [Stderr s]\<rparr>"

text \<open>
  \<^verbatim>\<open>subprocess.call(cmd, cwd=REPO_ROOT, env=env)\<close>: the call blocks until the child has
  ended and returns its return code. Without \<^verbatim>\<open>env\<close> the child inherits \<^verbatim>\<open>os.environ\<close>;
  with it, the child gets the items the dictionary has at the time of the call. The model
  covers the runs in which the program can be started: the \<^verbatim>\<open>OSError\<close> that
  \<^verbatim>\<open>subprocess.call\<close> raises when \<^verbatim>\<open>cargo\<close> cannot be executed is not a case of it.
\<close>

definition subprocess_call :: "child \<Rightarrow> string list \<Rightarrow> ref option \<Rightarrow> world \<Rightarrow> int \<times> world" where
  "subprocess_call ch cmd env w =
     (let e = (case env of None \<Rightarrow> environ w | Some r \<Rightarrow> deref w r);
          rc = ch (events w) cmd e
      in (rc, w\<lparr>events := events w @ [Spawn cmd e rc]\<rparr>))"

subsection \<open>run_cmd (lines 71 to 73)\<close>

text \<open>The function is defined in the script and called from nowhere in it.\<close>

definition run_cmd :: "child \<Rightarrow> string list \<Rightarrow> world \<Rightarrow> int \<times> world" where
  "run_cmd ch cmd w = subprocess_call ch cmd None (print_out (''+ '' @ join cmd) w)"

subsection \<open>The argument records (lines 44 to 68)\<close>

record RunArgs =
  bench :: string
  native :: bool
  extra :: "string list"

record DhatArgs =
  bench :: string
  extra :: "string list"

record Args =
  command :: string
  bench :: string
  native :: bool
  extra :: "string list"

subsection \<open>parse_args (lines 76 to 114)\<close>

text \<open>
  The splitting of \<^verbatim>\<open>sys.argv\<close> into a sub-command, options and a remainder is
  \<^verbatim>\<open>argparse\<close>'s and is not modelled: a \<open>cmdline\<close> is a command line that has one of the
  three sub-commands and only the options its sub-parser declares, with the value given
  to \<^verbatim>\<open>--bench\<close> (if any), whether \<^verbatim>\<open>--native\<close> was given, and the remainder.

  What the script configures is modelled: the default \<^verbatim>\<open>"all"\<close> of \<^verbatim>\<open>--bench\<close>, its
  \<^verbatim>\<open>choices\<close>, and the defaults of the namespace \<^verbatim>\<open>Args()\<close> for the fields a sub-parser
  does not set. A value outside \<^verbatim>\<open>choices\<close> makes \<^verbatim>\<open>argparse\<close> call \<^verbatim>\<open>parser.error\<close>,
  which writes the usage and the message to standard error and exits with status 2;
  the model keeps the message's stem and the offending value as the text.
\<close>

datatype cmdline =
    Run_cmd "string option" bool "string list"
  | Dhat_cmd "string option" "string list"
  | List_cmd

definition bench_choices :: "dict \<Rightarrow> string list" where
  "bench_choices table = ''all'' # map fst table"

definition bench_option :: "dict \<Rightarrow> string option \<Rightarrow> world \<Rightarrow> (py_error + string) \<times> world" where
  "bench_option table given w =
     (case given of
        None \<Rightarrow> (Inr ''all'', w)
      | Some b \<Rightarrow>
          if b \<in> set (bench_choices table) then (Inr b, w)
          else (Inl (SystemExit 2),
                print_err (''argument --bench: invalid choice: '' @ b) w))"

definition parse_args :: "cmdline \<Rightarrow> world \<Rightarrow> (py_error + Args) \<times> world" where
  "parse_args cl w =
     (case cl of
        Run_cmd given nflag xs \<Rightarrow>
          (case bench_option CRITERION_BENCHES given w of
             (Inl e, w') \<Rightarrow> (Inl e, w')
           | (Inr b, w') \<Rightarrow>
               (Inr \<lparr>command = ''run'', bench = b, native = nflag, extra = xs\<rparr>, w'))
      | Dhat_cmd given xs \<Rightarrow>
          (case bench_option DHAT_BENCHES given w of
             (Inl e, w') \<Rightarrow> (Inl e, w')
           | (Inr b, w') \<Rightarrow>
               (Inr \<lparr>command = ''dhat'', bench = b, native = False, extra = xs\<rparr>, w'))
      | List_cmd \<Rightarrow>
          (Inr \<lparr>command = ''list'', bench = [], native = False, extra = []\<rparr>, w))"

subsection \<open>handle_run (lines 123 to 143)\<close>

text \<open>The line printed before a child is started (lines 141 and 163), and the command
  of one iteration (lines 139 and 140).\<close>

definition banner :: "string \<Rightarrow> string" where
  "banner b = CHR 0x0A # ''=== Running '' @ b @ '' ===''"

definition criterion_cmd :: "string \<Rightarrow> string list \<Rightarrow> string list" where
  "criterion_cmd b xs = [''cargo'', ''bench'', ''--bench'', b] @ xs"

text \<open>The loop of lines 138 to 142, from the value \<open>code\<close> has when an iteration starts.\<close>

fun run_loop :: "child \<Rightarrow> ref \<Rightarrow> string list \<Rightarrow> string list \<Rightarrow> int \<Rightarrow> world \<Rightarrow> int \<times> world" where
  "run_loop ch env xs [] code w = (code, w)"
| "run_loop ch env xs (b # benches) code w =
     (let cmd = criterion_cmd b xs;
          w1 = print_out (banner b) w
      in case subprocess_call ch cmd (Some env) w1 of
           (rc, w2) \<Rightarrow> run_loop ch env xs benches (code OR rc) w2)"

text \<open>The body of \<open>handle_run\<close>, with the table it resolves the selection against as
  a parameter; the script's function is its instance at \<open>CRITERION_BENCHES\<close>.\<close>

definition handle_run_on :: "dict \<Rightarrow> child \<Rightarrow> RunArgs \<Rightarrow> world \<Rightarrow> (py_error + int) \<times> world" where
  "handle_run_on table ch args w =
     (case dict_copy Environ w of
        (env, w1) \<Rightarrow>
          (let w2 = (if RunArgs.native args
                     then ref_setitem env ''RUSTFLAGS''
                            (dict_get (deref w1 env) ''RUSTFLAGS'' [] @ '' -C target-cpu=native'')
                            w1
                     else w1)
           in case benches_to_run (RunArgs.bench args) table of
                Inl e \<Rightarrow> (Inl e, w2)
              | Inr benches \<Rightarrow>
                  if benches = []
                  then (Inr 1, print_err ''No criterion benches selected.'' w2)
                  else (case run_loop ch env (RunArgs.extra args) benches 0 w2 of
                          (code, w3) \<Rightarrow> (Inr code, w3))))"

definition handle_run :: "child \<Rightarrow> RunArgs \<Rightarrow> world \<Rightarrow> (py_error + int) \<times> world" where
  "handle_run = handle_run_on CRITERION_BENCHES"

subsection \<open>handle_dhat (lines 146 to 165)\<close>

text \<open>The command of one iteration, lines 158 to 162.\<close>

definition dhat_cmd :: "string \<Rightarrow> string list \<Rightarrow> string list" where
  "dhat_cmd b xs =
     ([''cargo'', ''bench'', ''--bench'', b, ''--'']
        @ (if xs = [] then [''--profile''] else []))
     @ xs"

fun dhat_loop :: "child \<Rightarrow> string list \<Rightarrow> string list \<Rightarrow> int \<Rightarrow> world \<Rightarrow> int \<times> world" where
  "dhat_loop ch xs [] code w = (code, w)"
| "dhat_loop ch xs (b # benches) code w =
     (let cmd = dhat_cmd b xs;
          w1 = print_out (banner b) w
      in case subprocess_call ch cmd None w1 of
           (rc, w2) \<Rightarrow> dhat_loop ch xs benches (code OR rc) w2)"

definition handle_dhat_on :: "dict \<Rightarrow> child \<Rightarrow> DhatArgs \<Rightarrow> world \<Rightarrow> (py_error + int) \<times> world" where
  "handle_dhat_on table ch args w =
     (case benches_to_run (DhatArgs.bench args) table of
        Inl e \<Rightarrow> (Inl e, w)
      | Inr benches \<Rightarrow>
          if benches = []
          then (Inr 1, print_err ''No dhat benches selected.'' w)
          else (case dhat_loop ch (DhatArgs.extra args) benches 0 w of
                  (code, w') \<Rightarrow> (Inr code, w')))"

definition handle_dhat :: "child \<Rightarrow> DhatArgs \<Rightarrow> world \<Rightarrow> (py_error + int) \<times> world" where
  "handle_dhat = handle_dhat_on DHAT_BENCHES"

subsection \<open>handle_list (lines 168 to 175)\<close>

definition list_line :: "string \<times> string \<Rightarrow> string" where
  "list_line kv = ''  '' @ ljust 12 (fst kv) @ '' -> '' @ snd kv"

fun print_lines :: "string list \<Rightarrow> world \<Rightarrow> world" where
  "print_lines [] w = w"
| "print_lines (s # ss) w = print_lines ss (print_out s w)"

definition handle_list :: "world \<Rightarrow> int \<times> world" where
  "handle_list w =
     (let w1 = print_out ''Criterion benches:'' w;
          w2 = print_lines (map list_line CRITERION_BENCHES) w1;
          w3 = print_out (CHR 0x0A # ''Dhat benches:'') w2;
          w4 = print_lines (map list_line DHAT_BENCHES) w3
      in (0, w4))"

subsection \<open>main (lines 178 to 200)\<close>

definition main :: "child \<Rightarrow> cmdline \<Rightarrow> world \<Rightarrow> (py_error + int) \<times> world" where
  "main ch cl w =
     (case parse_args cl w of
        (Inl e, w1) \<Rightarrow> (Inl e, w1)
      | (Inr args, w1) \<Rightarrow>
          if command args = ''run''
          then handle_run ch
                 \<lparr>RunArgs.bench = Args.bench args, RunArgs.native = Args.native args,
                  RunArgs.extra = Args.extra args\<rparr> w1
          else if command args = ''dhat''
          then handle_dhat ch
                 \<lparr>DhatArgs.bench = Args.bench args, DhatArgs.extra = Args.extra args\<rparr> w1
          else if command args = ''list''
          then (case handle_list w1 of (code, w2) \<Rightarrow> (Inr code, w2))
          else (Inr 1, w1))"

text \<open>
  \<^verbatim>\<open>sys.exit(main())\<close>: the status the process ends with is the value \<open>main\<close> returns, or
  the status of a \<^verbatim>\<open>SystemExit\<close>; an exception that nothing catches is printed to
  standard error by the interpreter, which then ends with status 1 (of the traceback the
  model keeps the name of the exception and the key). The status is the integer given to
  \<^verbatim>\<open>sys.exit\<close>; what the operating system keeps of it is outside the model.
\<close>

definition exit_status :: "(py_error + int) \<times> world \<Rightarrow> int \<times> world" where
  "exit_status r =
     (case r of
        (Inr code, w) \<Rightarrow> (code, w)
      | (Inl (SystemExit code), w) \<Rightarrow> (code, w)
      | (Inl (KeyError k), w) \<Rightarrow> (1, print_err (''KeyError: '' @ k) w))"

definition script :: "child \<Rightarrow> cmdline \<Rightarrow> world \<Rightarrow> int \<times> world" where
  "script ch cl w = exit_status (main ch cl w)"

subsection \<open>Reading a trace\<close>

text \<open>The events a run added to the trace, and the child processes among them.\<close>

definition added :: "world \<Rightarrow> world \<Rightarrow> event list" where
  "added w w' = drop (length (events w)) (events w')"

fun spawn_cmds :: "event list \<Rightarrow> string list list" where
  "spawn_cmds [] = []"
| "spawn_cmds (Spawn cmd e rc # evs) = cmd # spawn_cmds evs"
| "spawn_cmds (_ # evs) = spawn_cmds evs"

fun spawn_envs :: "event list \<Rightarrow> dict list" where
  "spawn_envs [] = []"
| "spawn_envs (Spawn cmd e rc # evs) = e # spawn_envs evs"
| "spawn_envs (_ # evs) = spawn_envs evs"

fun spawn_codes :: "event list \<Rightarrow> int list" where
  "spawn_codes [] = []"
| "spawn_codes (Spawn cmd e rc # evs) = rc # spawn_codes evs"
| "spawn_codes (_ # evs) = spawn_codes evs"

text \<open>The bitwise OR of a list of return codes, from 0.\<close>

definition or_all :: "int list \<Rightarrow> int" where
  "or_all rcs = foldl (OR) 0 rcs"

text \<open>What the iterations of a loop add to the trace: for each target, the banner and
  then the child, given the command of a target, the environment of the children and
  their return codes.\<close>

definition iterations :: "(string \<Rightarrow> string list) \<Rightarrow> dict \<Rightarrow> string list \<Rightarrow> int list \<Rightarrow> event list" where
  "iterations cmd e bs rcs = concat (map2 (\<lambda>b rc. [Stdout (banner b), Spawn (cmd b) e rc]) bs rcs)"

text \<open>\<open>contains sub s\<close>: the text \<open>sub\<close> occurs in \<open>s\<close>.\<close>

fun starts_with :: "string \<Rightarrow> string \<Rightarrow> bool" where
  "starts_with [] s = True"
| "starts_with (c # cs) [] = False"
| "starts_with (c # cs) (d # ds) = (c = d \<and> starts_with cs ds)"

fun contains :: "string \<Rightarrow> string \<Rightarrow> bool" where
  "contains sub [] = (sub = [])"
| "contains sub (c # cs) = (starts_with sub (c # cs) \<or> contains sub cs)"

text \<open>\<open>argv_announced printed evs\<close>: every child of \<open>evs\<close> comes after a printed line
  in which its argument vector, joined with spaces, occurs; \<open>printed\<close> are the lines
  printed before \<open>evs\<close>.\<close>

fun argv_announced :: "string list \<Rightarrow> event list \<Rightarrow> bool" where
  "argv_announced printed [] = True"
| "argv_announced printed (Stdout s # evs) = argv_announced (s # printed) evs"
| "argv_announced printed (Stderr s # evs) = argv_announced (s # printed) evs"
| "argv_announced printed (Spawn cmd e rc # evs) =
     (list_ex (contains (join cmd)) printed \<and> argv_announced printed evs)"

text \<open>A world to start an example from: \<^verbatim>\<open>RUSTFLAGS="-Z foo"\<close> in the environment,
  nothing allocated and nothing printed.\<close>

definition world0 :: world where
  "world0 = \<lparr>environ = [(''RUSTFLAGS'', ''-Z foo'')], dicts = (\<lambda>_. []), ndicts = 0, events = []\<rparr>"

text \<open>Children for the examples: all succeed; the second one of a run fails with 1.\<close>

definition all_succeed :: child where
  "all_succeed hist cmd e = 0"

definition second_fails :: child where
  "second_fails hist cmd e = (if length (spawn_cmds hist) = 1 then 1 else 0)"

text \<open>The number of dictionaries allocated between two worlds.\<close>

definition copies_made :: "world \<Rightarrow> world \<Rightarrow> nat" where
  "copies_made w w' = ndicts w' - ndicts w"

section \<open>The loops\<close>

lemma deref_events [simp]: "deref (w\<lparr>events := evs\<rparr>) r = deref w r"
  by (simp add: deref_def split: ref.splits)

lemma run_loop_char:
  "\<exists>rcs. length rcs = length bs \<and>
     run_loop ch env xs bs code w =
       (foldl (OR) code rcs,
        w\<lparr>events := events w @ iterations (\<lambda>b. criterion_cmd b xs) (deref w env) bs rcs\<rparr>)"
proof (induction bs arbitrary: code w)
  case Nil
  show ?case by (simp add: iterations_def)
next
  case (Cons b bs)
  define w1 where "w1 = print_out (banner b) w"
  define rc where "rc = ch (events w1) (criterion_cmd b xs) (deref w1 env)"
  define w2 where "w2 = w1\<lparr>events := events w1 @ [Spawn (criterion_cmd b xs) (deref w1 env) rc]\<rparr>"
  have step: "run_loop ch env xs (b # bs) code w = run_loop ch env xs bs (code OR rc) w2"
    by (simp add: subprocess_call_def Let_def w1_def rc_def w2_def)
  have d: "deref w2 env = deref w env" "deref w1 env = deref w env"
    by (simp_all add: w2_def w1_def print_out_def)
  from Cons.IH [of "code OR rc" w2] obtain rcs where
    l: "length rcs = length bs" and
    r: "run_loop ch env xs bs (code OR rc) w2 =
         (foldl (OR) (code OR rc) rcs,
          w2\<lparr>events := events w2 @ iterations (\<lambda>b. criterion_cmd b xs) (deref w2 env) bs rcs\<rparr>)"
    by blast
  have "run_loop ch env xs (b # bs) code w =
       (foldl (OR) code (rc # rcs),
        w\<lparr>events := events w @ iterations (\<lambda>b. criterion_cmd b xs) (deref w env) (b # bs) (rc # rcs)\<rparr>)"
    unfolding step r d by (simp add: w2_def w1_def print_out_def iterations_def d)
  with l show ?case
    by (intro exI [of _ "rc # rcs"]) simp
qed

lemma dhat_loop_char:
  "\<exists>rcs. length rcs = length bs \<and>
     dhat_loop ch xs bs code w =
       (foldl (OR) code rcs,
        w\<lparr>events := events w @ iterations (\<lambda>b. dhat_cmd b xs) (environ w) bs rcs\<rparr>)"
proof (induction bs arbitrary: code w)
  case Nil
  show ?case by (simp add: iterations_def)
next
  case (Cons b bs)
  let ?rc = "ch (events w @ [Stdout (banner b)]) (dhat_cmd b xs) (environ w)"
  let ?w2 = "w\<lparr>events := events w @ [Stdout (banner b), Spawn (dhat_cmd b xs) (environ w) ?rc]\<rparr>"
  have step: "dhat_loop ch xs (b # bs) code w = dhat_loop ch xs bs (code OR ?rc) ?w2"
    by (simp add: subprocess_call_def Let_def print_out_def)
  from Cons.IH [of "code OR ?rc" ?w2] obtain rcs where
    l: "length rcs = length bs" and
    r: "dhat_loop ch xs bs (code OR ?rc) ?w2 =
         (foldl (OR) (code OR ?rc) rcs,
          ?w2\<lparr>events := events ?w2 @ iterations (\<lambda>b. dhat_cmd b xs) (environ ?w2) bs rcs\<rparr>)"
    by blast
  have "dhat_loop ch xs (b # bs) code w =
       (foldl (OR) code (?rc # rcs),
        w\<lparr>events := events w @ iterations (\<lambda>b. dhat_cmd b xs) (environ w) (b # bs) (?rc # rcs)\<rparr>)"
    unfolding step r by (simp add: iterations_def)
  with l show ?case
    by (intro exI [of _ "?rc # rcs"]) simp
qed

section \<open>Traces of iterations\<close>

lemma spawn_cmds_iterations:
  "length rcs = length bs \<Longrightarrow> spawn_cmds (iterations cmd e bs rcs) = map cmd bs"
  by (induction rcs bs rule: list_induct2) (simp_all add: iterations_def)

lemma spawn_codes_iterations:
  "length rcs = length bs \<Longrightarrow> spawn_codes (iterations cmd e bs rcs) = rcs"
  by (induction rcs bs rule: list_induct2) (simp_all add: iterations_def)

lemma spawn_envs_iterations:
  "length rcs = length bs \<Longrightarrow> spawn_envs (iterations cmd e bs rcs) = replicate (length bs) e"
  by (induction rcs bs rule: list_induct2) (simp_all add: iterations_def)

lemma added_append [simp]: "added w (w'\<lparr>events := events w @ evs\<rparr>) = evs"
  by (simp add: added_def)

lemma added_same [simp]: "added w w = []"
  by (simp add: added_def)

lemma map_of_dict_setitem: "map_of (dict_setitem k v d) = (map_of d)(k \<mapsto> v)"
  by (induction d) (auto simp: fun_eq_iff)

section \<open>The handlers\<close>

lemma handle_run_on_char:
  assumes "benches_to_run (RunArgs.bench args) table = Inr bs" and "bs \<noteq> []"
  shows "\<exists>rcs. length rcs = length bs \<and>
    handle_run_on table ch args w =
      (let e = (if RunArgs.native args
                then dict_setitem ''RUSTFLAGS''
                       (dict_get (environ w) ''RUSTFLAGS'' [] @ '' -C target-cpu=native'') (environ w)
                else environ w)
       in (Inr (or_all rcs),
           w\<lparr>dicts := (dicts w)(ndicts w := e), ndicts := Suc (ndicts w),
             events := events w @ iterations (\<lambda>b. criterion_cmd b (RunArgs.extra args)) e bs rcs\<rparr>))"
proof -
  define e where "e = (if RunArgs.native args
                then dict_setitem ''RUSTFLAGS''
                       (dict_get (environ w) ''RUSTFLAGS'' [] @ '' -C target-cpu=native'') (environ w)
                else environ w)"
  define w2 where "w2 = w\<lparr>dicts := (dicts w)(ndicts w := e), ndicts := Suc (ndicts w)\<rparr>"
  have d: "deref w2 (Dict (ndicts w)) = e"
    by (simp add: w2_def deref_def)
  define w1 where "w1 = snd (dict_copy Environ w)"
  have c: "dict_copy Environ w = (Dict (ndicts w), w1)"
    by (simp add: w1_def dict_copy_def)
  have o: "(if RunArgs.native args
            then ref_setitem (Dict (ndicts w)) ''RUSTFLAGS''
                   (dict_get (deref w1 (Dict (ndicts w))) ''RUSTFLAGS'' [] @ '' -C target-cpu=native'') w1
            else w1) = w2"
    by (cases w) (simp add: w1_def w2_def e_def dict_copy_def ref_setitem_def deref_def)
  have h: "handle_run_on table ch args w =
      (case run_loop ch (Dict (ndicts w)) (RunArgs.extra args) bs 0 w2 of
         (code, w3) \<Rightarrow> (Inr code, w3))"
    using assms by (simp add: handle_run_on_def c o)
  from run_loop_char [of bs ch "Dict (ndicts w)" "RunArgs.extra args" 0 w2]
  obtain rcs where l: "length rcs = length bs" and
    r: "run_loop ch (Dict (ndicts w)) (RunArgs.extra args) bs 0 w2 =
       (foldl (OR) 0 rcs,
        w2\<lparr>events := events w2 @
              iterations (\<lambda>b. criterion_cmd b (RunArgs.extra args)) (deref w2 (Dict (ndicts w))) bs rcs\<rparr>)"
    by blast
  have "handle_run_on table ch args w =
      (Inr (or_all rcs),
           w\<lparr>dicts := (dicts w)(ndicts w := e), ndicts := Suc (ndicts w),
             events := events w @ iterations (\<lambda>b. criterion_cmd b (RunArgs.extra args)) e bs rcs\<rparr>)"
    unfolding h r d by (simp add: w2_def or_all_def)
  with l show ?thesis
    unfolding e_def Let_def by blast
qed

lemma handle_dhat_on_char:
  assumes "benches_to_run (DhatArgs.bench args) table = Inr bs" and "bs \<noteq> []"
  shows "\<exists>rcs. length rcs = length bs \<and>
    handle_dhat_on table ch args w =
      (Inr (or_all rcs),
       w\<lparr>events := events w @ iterations (\<lambda>b. dhat_cmd b (DhatArgs.extra args)) (environ w) bs rcs\<rparr>)"
proof -
  from dhat_loop_char [of bs ch "DhatArgs.extra args" 0 w]
  obtain rcs where l: "length rcs = length bs" and
    r: "dhat_loop ch (DhatArgs.extra args) bs 0 w =
       (foldl (OR) 0 rcs,
        w\<lparr>events := events w @ iterations (\<lambda>b. dhat_cmd b (DhatArgs.extra args)) (environ w) bs rcs\<rparr>)"
    by blast
  have "handle_dhat_on table ch args w =
      (Inr (or_all rcs),
       w\<lparr>events := events w @ iterations (\<lambda>b. dhat_cmd b (DhatArgs.extra args)) (environ w) bs rcs\<rparr>)"
    using assms by (simp add: handle_dhat_on_def r or_all_def)
  with l show ?thesis by blast
qed


lemma handle_run_on_empty:
  assumes "benches_to_run (RunArgs.bench args) table = Inr []"
  shows "handle_run_on table ch args w =
      (let e = (if RunArgs.native args
                then dict_setitem ''RUSTFLAGS''
                       (dict_get (environ w) ''RUSTFLAGS'' [] @ '' -C target-cpu=native'') (environ w)
                else environ w)
       in (Inr 1,
           w\<lparr>dicts := (dicts w)(ndicts w := e), ndicts := Suc (ndicts w),
             events := events w @ [Stderr ''No criterion benches selected.'']\<rparr>))"
  using assms
  by (cases w)
     (simp add: handle_run_on_def dict_copy_def ref_setitem_def deref_def print_err_def Let_def)

lemma handle_run_on_raises:
  assumes "benches_to_run (RunArgs.bench args) table = Inl err"
  shows "handle_run_on table ch args w =
      (let e = (if RunArgs.native args
                then dict_setitem ''RUSTFLAGS''
                       (dict_get (environ w) ''RUSTFLAGS'' [] @ '' -C target-cpu=native'') (environ w)
                else environ w)
       in (Inl err,
           w\<lparr>dicts := (dicts w)(ndicts w := e), ndicts := Suc (ndicts w)\<rparr>))"
  using assms
  by (cases w)
     (simp add: handle_run_on_def dict_copy_def ref_setitem_def deref_def Let_def)

lemma handle_dhat_on_empty:
  assumes "benches_to_run (DhatArgs.bench args) table = Inr []"
  shows "handle_dhat_on table ch args w =
      (Inr 1, w\<lparr>events := events w @ [Stderr ''No dhat benches selected.'']\<rparr>)"
  using assms by (simp add: handle_dhat_on_def print_err_def)

lemma handle_dhat_on_raises:
  assumes "benches_to_run (DhatArgs.bench args) table = Inl err"
  shows "handle_dhat_on table ch args w = (Inl err, w)"
  using assms by (simp add: handle_dhat_on_def)

text \<open>Whatever the selection resolves to, \<open>handle_run_on\<close> leaves a world that differs
  from the one it started in by one new dictionary and by the events it added, and all the
  children it started got the items of that dictionary.\<close>

lemma handle_run_on_world:
  "\<exists>e evs. snd (handle_run_on table ch args w) =
       w\<lparr>dicts := (dicts w)(ndicts w := e), ndicts := Suc (ndicts w),
         events := events w @ evs\<rparr> \<and>
     spawn_envs evs = replicate (length (spawn_cmds evs)) e"
proof (cases "benches_to_run (RunArgs.bench args) table")
  case (Inl err)
  from handle_run_on_raises [OF Inl, of ch w] show ?thesis
    unfolding Let_def
    by (intro exI [of _ "if RunArgs.native args
                then dict_setitem ''RUSTFLAGS''
                       (dict_get (environ w) ''RUSTFLAGS'' [] @ '' -C target-cpu=native'') (environ w)
                else environ w"] exI [of _ "[]"]) simp
next
  case (Inr bs)
  show ?thesis
  proof (cases "bs = []")
    case True
    with Inr have "benches_to_run (RunArgs.bench args) table = Inr []" by simp
    from handle_run_on_empty [OF this, of ch w] show ?thesis
      unfolding Let_def
      by (intro exI [of _ "if RunArgs.native args
                then dict_setitem ''RUSTFLAGS''
                       (dict_get (environ w) ''RUSTFLAGS'' [] @ '' -C target-cpu=native'') (environ w)
                else environ w"] exI [of _ "[Stderr ''No criterion benches selected.'']"]) simp
  next
    case False
    from handle_run_on_char [OF Inr False, of ch w] obtain rcs where
      l: "length rcs = length bs" and
      h: "handle_run_on table ch args w =
      (let e = (if RunArgs.native args
                then dict_setitem ''RUSTFLAGS''
                       (dict_get (environ w) ''RUSTFLAGS'' [] @ '' -C target-cpu=native'') (environ w)
                else environ w)
       in (Inr (or_all rcs),
           w\<lparr>dicts := (dicts w)(ndicts w := e), ndicts := Suc (ndicts w),
             events := events w @ iterations (\<lambda>b. criterion_cmd b (RunArgs.extra args)) e bs rcs\<rparr>))"
      by blast
    show ?thesis
      unfolding h Let_def
      by (intro exI [of _ "if RunArgs.native args
                then dict_setitem ''RUSTFLAGS''
                       (dict_get (environ w) ''RUSTFLAGS'' [] @ '' -C target-cpu=native'') (environ w)
                else environ w"]
           exI [of _ "iterations (\<lambda>b. criterion_cmd b (RunArgs.extra args))
                (if RunArgs.native args
                then dict_setitem ''RUSTFLAGS''
                       (dict_get (environ w) ''RUSTFLAGS'' [] @ '' -C target-cpu=native'') (environ w)
                else environ w) bs rcs"])
         (simp add: spawn_envs_iterations [OF l] spawn_cmds_iterations [OF l])
  qed
qed

lemma handle_dhat_on_world:
  "\<exists>evs. snd (handle_dhat_on table ch args w) = w\<lparr>events := events w @ evs\<rparr> \<and>
     spawn_envs evs = replicate (length (spawn_cmds evs)) (environ w)"
proof (cases "benches_to_run (DhatArgs.bench args) table")
  case (Inl err)
  from handle_dhat_on_raises [OF Inl, of ch w] show ?thesis
    by (intro exI [of _ "[]"]) simp
next
  case (Inr bs)
  show ?thesis
  proof (cases "bs = []")
    case True
    with Inr have "benches_to_run (DhatArgs.bench args) table = Inr []" by simp
    from handle_dhat_on_empty [OF this, of ch w] show ?thesis
      by (intro exI [of _ "[Stderr ''No dhat benches selected.'']"]) simp
  next
    case False
    from handle_dhat_on_char [OF Inr False, of ch w] obtain rcs where
      l: "length rcs = length bs" and
      h: "handle_dhat_on table ch args w =
      (Inr (or_all rcs),
       w\<lparr>events := events w @ iterations (\<lambda>b. dhat_cmd b (DhatArgs.extra args)) (environ w) bs rcs\<rparr>)"
      by blast
    show ?thesis
      unfolding h
      by (intro exI [of _ "iterations (\<lambda>b. dhat_cmd b (DhatArgs.extra args)) (environ w) bs rcs"])
         (simp add: spawn_envs_iterations [OF l] spawn_cmds_iterations [OF l])
  qed
qed

lemma print_lines_events:
  "print_lines ss w = w\<lparr>events := events w @ map Stdout ss\<rparr>"
  by (induction ss arbitrary: w) (simp_all add: print_out_def)

lemma handle_list_char:
  "handle_list w =
     (0, w\<lparr>events := events w @
            Stdout ''Criterion benches:'' # map (Stdout \<circ> list_line) CRITERION_BENCHES @
            Stdout (CHR 0x0A # ''Dhat benches:'') # map (Stdout \<circ> list_line) DHAT_BENCHES\<rparr>)"
  by (simp add: handle_list_def Let_def print_lines_events print_out_def)

section \<open>Selection\<close>

text \<open>
  Claim C5. For every registry, resolving the selection \<^verbatim>\<open>"all"\<close> returns all the target
  identifiers of the registry in declaration order, and the result is as long as the
  registry has entries.
\<close>

theorem benches_to_run_all:
  "benches_to_run ''all'' table = Inr (map snd table) \<and>
   length (map snd table) = length table"
  by (simp add: benches_to_run_def)

text \<open>
  Claim C7, as the code has it. For every key \<open>k\<close> of a registry other than the word
  \<^verbatim>\<open>"all"\<close>, resolving \<open>k\<close> returns a list of exactly one element, the target registered
  for \<open>k\<close>. The comparison with \<^verbatim>\<open>"all"\<close> comes first in \<open>benches_to_run\<close>, so a registry
  that has the key \<^verbatim>\<open>"all"\<close> resolves it to all its targets.
\<close>

theorem benches_to_run_registered:
  assumes "distinct (map fst table)" and "(k, v) \<in> set table" and "k \<noteq> ''all''"
  shows "benches_to_run k table = Inr [v]"
  using assms by (simp add: benches_to_run_def dict_getitem_def)

theorem benches_to_run_registered_witness:
  "distinct (map fst CRITERION_BENCHES) \<and>
   (''io'', ''criterion_io'') \<in> set CRITERION_BENCHES \<and> ''io'' \<noteq> ''all'' \<and>
   benches_to_run ''io'' CRITERION_BENCHES = Inr [''criterion_io'']"
proof -
  have d: "distinct (map fst CRITERION_BENCHES)"
    by (simp add: CRITERION_BENCHES_def)
  have m: "(''io'', ''criterion_io'') \<in> set CRITERION_BENCHES"
    by (simp add: CRITERION_BENCHES_def)
  have n: "''io'' \<noteq> ''all''"
    by simp
  from benches_to_run_registered [OF d m n] d m n show ?thesis
    by simp
qed

theorem benches_to_run_all_key_counterexample:
  "\<not> (\<forall>table k v. distinct (map fst table) \<and> (k, v) \<in> set table
        \<longrightarrow> benches_to_run k table = Inr [v])"
proof
  assume a: "\<forall>table k v. distinct (map fst table) \<and> (k, v) \<in> set table
        \<longrightarrow> benches_to_run k table = Inr [v]"
  have "distinct (map fst [(''all'', ''x''), (''b'', ''y'')]) \<and>
        (''all'', ''x'') \<in> set [(''all'', ''x''), (''b'', ''y'')]"
    by simp
  with a have "benches_to_run ''all'' [(''all'', ''x''), (''b'', ''y'')] = Inr [''x'']"
    by blast
  then show False
    by (simp add: benches_to_run_def)
qed

section \<open>Examples\<close>

lemmas run_defs =
  handle_run_def handle_run_on_def handle_dhat_def handle_dhat_on_def benches_to_run_def
  dict_getitem_def dict_get_def dict_copy_def ref_setitem_def deref_def subprocess_call_def
  print_out_def print_err_def banner_def criterion_cmd_def dhat_cmd_def
  CRITERION_BENCHES_def DHAT_BENCHES_def world0_def Let_def

lemma run_all_second_fails:
  "handle_run second_fails \<lparr>RunArgs.bench = ''all'', native = True, extra = []\<rparr> world0 =
     (Inr 1,
      world0\<lparr>dicts := (dicts world0)(0 := [(''RUSTFLAGS'', ''-Z foo -C target-cpu=native'')]),
        ndicts := 1,
        events :=
          [Stdout (banner ''criterion_pipeline''),
           Spawn [''cargo'', ''bench'', ''--bench'', ''criterion_pipeline'']
             [(''RUSTFLAGS'', ''-Z foo -C target-cpu=native'')] 0,
           Stdout (banner ''criterion_transformers''),
           Spawn [''cargo'', ''bench'', ''--bench'', ''criterion_transformers'']
             [(''RUSTFLAGS'', ''-Z foo -C target-cpu=native'')] 1,
           Stdout (banner ''criterion_io''),
           Spawn [''cargo'', ''bench'', ''--bench'', ''criterion_io'']
             [(''RUSTFLAGS'', ''-Z foo -C target-cpu=native'')] 0]\<rparr>)"
  by (simp add: run_defs second_fails_def)

lemma run_all_succeed:
  "handle_run all_succeed \<lparr>RunArgs.bench = ''all'', native = False, extra = []\<rparr> world0 =
     (Inr 0,
      world0\<lparr>dicts := (dicts world0)(0 := [(''RUSTFLAGS'', ''-Z foo'')]),
        ndicts := 1,
        events :=
          [Stdout (banner ''criterion_pipeline''),
           Spawn [''cargo'', ''bench'', ''--bench'', ''criterion_pipeline'']
             [(''RUSTFLAGS'', ''-Z foo'')] 0,
           Stdout (banner ''criterion_transformers''),
           Spawn [''cargo'', ''bench'', ''--bench'', ''criterion_transformers'']
             [(''RUSTFLAGS'', ''-Z foo'')] 0,
           Stdout (banner ''criterion_io''),
           Spawn [''cargo'', ''bench'', ''--bench'', ''criterion_io'']
             [(''RUSTFLAGS'', ''-Z foo'')] 0]\<rparr>)"
  by (simp add: run_defs all_succeed_def)

lemma dhat_all_second_fails:
  "handle_dhat second_fails \<lparr>DhatArgs.bench = ''all'', extra = []\<rparr> world0 =
     (Inr 1,
      world0\<lparr>events :=
          [Stdout (banner ''dhat_build''),
           Spawn [''cargo'', ''bench'', ''--bench'', ''dhat_build'', ''--'', ''--profile'']
             [(''RUSTFLAGS'', ''-Z foo'')] 0,
           Stdout (banner ''dhat_transformers''),
           Spawn [''cargo'', ''bench'', ''--bench'', ''dhat_transformers'', ''--'', ''--profile'']
             [(''RUSTFLAGS'', ''-Z foo'')] 1,
           Stdout (banner ''dhat_compress''),
           Spawn [''cargo'', ''bench'', ''--bench'', ''dhat_compress'', ''--'', ''--profile'']
             [(''RUSTFLAGS'', ''-Z foo'')] 0]\<rparr>)"
  by (simp add: run_defs second_fails_def)

section \<open>Running the selected benches\<close>

text \<open>
  Claim C1. When a run or a dhat command executes its invocations, the status it returns
  is the bitwise OR of the return codes of all its children; the children are started
  one after the other in the order of the resolved list, one for each target, whatever
  the return codes of the earlier ones.
\<close>

theorem status_is_or_of_exit_codes:
  assumes "benches_to_run (RunArgs.bench rargs) rtable = Inr rs" and "rs \<noteq> []"
    and "benches_to_run (DhatArgs.bench dargs) dtable = Inr ds" and "ds \<noteq> []"
  shows
    "fst (handle_run_on rtable ch rargs w) =
       Inr (or_all (spawn_codes (added w (snd (handle_run_on rtable ch rargs w))))) \<and>
     spawn_cmds (added w (snd (handle_run_on rtable ch rargs w))) =
       map (\<lambda>b. [''cargo'', ''bench'', ''--bench'', b] @ RunArgs.extra rargs) rs \<and>
     fst (handle_dhat_on dtable ch dargs w) =
       Inr (or_all (spawn_codes (added w (snd (handle_dhat_on dtable ch dargs w))))) \<and>
     spawn_cmds (added w (snd (handle_dhat_on dtable ch dargs w))) =
       map (\<lambda>b. [''cargo'', ''bench'', ''--bench'', b, ''--''] @
                 (if DhatArgs.extra dargs = [] then [''--profile''] else DhatArgs.extra dargs)) ds \<and>
     length (spawn_cmds (added w (snd (handle_run_on rtable ch rargs w)))) = length rs \<and>
     length (spawn_cmds (added w (snd (handle_dhat_on dtable ch dargs w)))) = length ds \<and>
     fst (exit_status (handle_run_on rtable ch rargs w)) =
       or_all (spawn_codes (added w (snd (handle_run_on rtable ch rargs w)))) \<and>
     fst (exit_status (handle_dhat_on dtable ch dargs w)) =
       or_all (spawn_codes (added w (snd (handle_dhat_on dtable ch dargs w))))"
proof -
  from handle_run_on_char [OF assms(1,2), of ch w] obtain rcs where
    l: "length rcs = length rs" and
    h: "handle_run_on rtable ch rargs w =
      (let e = (if RunArgs.native rargs
                then dict_setitem ''RUSTFLAGS''
                       (dict_get (environ w) ''RUSTFLAGS'' [] @ '' -C target-cpu=native'') (environ w)
                else environ w)
       in (Inr (or_all rcs),
           w\<lparr>dicts := (dicts w)(ndicts w := e), ndicts := Suc (ndicts w),
             events := events w @ iterations (\<lambda>b. criterion_cmd b (RunArgs.extra rargs)) e rs rcs\<rparr>))"
    by blast
  from handle_dhat_on_char [OF assms(3,4), of ch w] obtain dcs where
    l': "length dcs = length ds" and
    h': "handle_dhat_on dtable ch dargs w =
      (Inr (or_all dcs),
       w\<lparr>events := events w @ iterations (\<lambda>b. dhat_cmd b (DhatArgs.extra dargs)) (environ w) ds dcs\<rparr>)"
    by blast
  have 1: "fst (handle_run_on rtable ch rargs w) =
       Inr (or_all (spawn_codes (added w (snd (handle_run_on rtable ch rargs w)))))"
    unfolding h Let_def by (simp add: spawn_codes_iterations [OF l])
  have 2: "spawn_cmds (added w (snd (handle_run_on rtable ch rargs w))) =
       map (\<lambda>b. [''cargo'', ''bench'', ''--bench'', b] @ RunArgs.extra rargs) rs"
    unfolding h Let_def by (simp add: spawn_cmds_iterations [OF l] criterion_cmd_def)
  have 3: "fst (handle_dhat_on dtable ch dargs w) =
       Inr (or_all (spawn_codes (added w (snd (handle_dhat_on dtable ch dargs w)))))"
    unfolding h' by (simp add: spawn_codes_iterations [OF l'])
  have 4: "spawn_cmds (added w (snd (handle_dhat_on dtable ch dargs w))) =
       map (\<lambda>b. [''cargo'', ''bench'', ''--bench'', b, ''--''] @
                 (if DhatArgs.extra dargs = [] then [''--profile''] else DhatArgs.extra dargs)) ds"
    unfolding h' by (simp add: spawn_cmds_iterations [OF l'] dhat_cmd_def)
  have 5: "length (spawn_cmds (added w (snd (handle_run_on rtable ch rargs w)))) = length rs"
    unfolding 2 by simp
  have 6: "length (spawn_cmds (added w (snd (handle_dhat_on dtable ch dargs w)))) = length ds"
    unfolding h' by (simp add: spawn_cmds_iterations [OF l'])
  have 7: "fst (exit_status (handle_run_on rtable ch rargs w)) =
       or_all (spawn_codes (added w (snd (handle_run_on rtable ch rargs w))))"
    unfolding h Let_def by (simp add: spawn_codes_iterations [OF l] exit_status_def)
  have 8: "fst (exit_status (handle_dhat_on dtable ch dargs w)) =
       or_all (spawn_codes (added w (snd (handle_dhat_on dtable ch dargs w))))"
    unfolding h' by (simp add: spawn_codes_iterations [OF l'] exit_status_def)
  from 1 2 3 4 5 6 7 8 show ?thesis by blast
qed

theorem status_is_or_of_exit_codes_witness:
  "spawn_codes (added world0 (snd (handle_run_on CRITERION_BENCHES second_fails
       \<lparr>RunArgs.bench = ''all'', native = True, extra = []\<rparr> world0))) = [0, 1, 0] \<and>
   fst (handle_run_on CRITERION_BENCHES second_fails
       \<lparr>RunArgs.bench = ''all'', native = True, extra = []\<rparr> world0) = Inr 1 \<and>
   spawn_cmds (added world0 (snd (handle_run_on CRITERION_BENCHES second_fails
       \<lparr>RunArgs.bench = ''all'', native = True, extra = []\<rparr> world0))) =
     [[''cargo'', ''bench'', ''--bench'', ''criterion_pipeline''],
      [''cargo'', ''bench'', ''--bench'', ''criterion_transformers''],
      [''cargo'', ''bench'', ''--bench'', ''criterion_io'']] \<and>
   spawn_codes (added world0 (snd (handle_dhat_on DHAT_BENCHES second_fails
       \<lparr>DhatArgs.bench = ''all'', extra = []\<rparr> world0))) = [0, 1, 0] \<and>
   fst (handle_dhat_on DHAT_BENCHES second_fails
       \<lparr>DhatArgs.bench = ''all'', extra = []\<rparr> world0) = Inr 1 \<and>
   spawn_codes (added world0 (snd (handle_run_on CRITERION_BENCHES all_succeed
       \<lparr>RunArgs.bench = ''all'', native = False, extra = []\<rparr> world0))) = [0, 0, 0] \<and>
   fst (handle_run_on CRITERION_BENCHES all_succeed
       \<lparr>RunArgs.bench = ''all'', native = False, extra = []\<rparr> world0) = Inr 0"
proof -
  have r: "benches_to_run (RunArgs.bench \<lparr>RunArgs.bench = ''all'', native = True, extra = []\<rparr>)
             CRITERION_BENCHES =
           Inr [''criterion_pipeline'', ''criterion_transformers'', ''criterion_io'']"
    by (simp add: benches_to_run_def CRITERION_BENCHES_def)
  have r': "benches_to_run (RunArgs.bench \<lparr>RunArgs.bench = ''all'', native = False, extra = []\<rparr>)
             CRITERION_BENCHES =
           Inr [''criterion_pipeline'', ''criterion_transformers'', ''criterion_io'']"
    by (simp add: benches_to_run_def CRITERION_BENCHES_def)
  have d: "benches_to_run (DhatArgs.bench \<lparr>DhatArgs.bench = ''all'', extra = []\<rparr>) DHAT_BENCHES =
           Inr [''dhat_build'', ''dhat_transformers'', ''dhat_compress'']"
    by (simp add: benches_to_run_def DHAT_BENCHES_def)
  have rc: "spawn_codes (added world0 (snd (handle_run_on CRITERION_BENCHES second_fails
       \<lparr>RunArgs.bench = ''all'', native = True, extra = []\<rparr> world0))) = [0, 1, 0]"
    using run_all_second_fails by (simp add: handle_run_def added_def world0_def)
  have rc': "spawn_codes (added world0 (snd (handle_run_on CRITERION_BENCHES all_succeed
       \<lparr>RunArgs.bench = ''all'', native = False, extra = []\<rparr> world0))) = [0, 0, 0]"
    using run_all_succeed by (simp add: handle_run_def added_def world0_def)
  have dc: "spawn_codes (added world0 (snd (handle_dhat_on DHAT_BENCHES second_fails
       \<lparr>DhatArgs.bench = ''all'', extra = []\<rparr> world0))) = [0, 1, 0]"
    using dhat_all_second_fails by (simp add: handle_dhat_def added_def world0_def)
  have o: "or_all [0, 1, 0] = 1" "or_all [0, 0, 0] = 0"
    by (simp_all add: or_all_def)
  from status_is_or_of_exit_codes [OF r _ d, where w = world0 and ch = second_fails]
       status_is_or_of_exit_codes [OF r' _ d, where w = world0 and ch = all_succeed]
       rc rc' dc o
  show ?thesis by simp
qed

section \<open>The commands and the environment of the children\<close>

lemma handle_dhat_on_cmds:
  assumes "benches_to_run (DhatArgs.bench args) table = Inr bs"
  shows "spawn_cmds (added w (snd (handle_dhat_on table ch args w))) =
           map (\<lambda>b. dhat_cmd b (DhatArgs.extra args)) bs"
proof (cases "bs = []")
  case True
  with assms have "benches_to_run (DhatArgs.bench args) table = Inr []" by simp
  from handle_dhat_on_empty [OF this, of ch w] True show ?thesis by simp
next
  case False
  from handle_dhat_on_char [OF assms False, of ch w] obtain rcs where
    l: "length rcs = length bs" and
    h: "handle_dhat_on table ch args w =
      (Inr (or_all rcs),
       w\<lparr>events := events w @ iterations (\<lambda>b. dhat_cmd b (DhatArgs.extra args)) (environ w) bs rcs\<rparr>)"
    by blast
  show ?thesis
    unfolding h by (simp add: spawn_cmds_iterations [OF l])
qed

text \<open>
  Claim C3. Every command of a dhat run is \<^verbatim>\<open>cargo bench --bench <target> --\<close> followed by
  \<^verbatim>\<open>--profile\<close> alone when the caller gave no extra arguments, and by the extra arguments
  alone, in their order, when the caller gave some.
\<close>

theorem dhat_profile_or_extra:
  assumes "benches_to_run (DhatArgs.bench args) table = Inr bs"
  shows "spawn_cmds (added w (snd (handle_dhat_on table ch args w))) =
           map (\<lambda>b. [''cargo'', ''bench'', ''--bench'', b, ''--''] @
                     (if DhatArgs.extra args = [] then [''--profile''] else DhatArgs.extra args))
               bs"
  unfolding handle_dhat_on_cmds [OF assms] by (simp add: dhat_cmd_def)

theorem dhat_profile_or_extra_witness:
  "map (drop 5) (spawn_cmds (added world0 (snd (handle_dhat_on DHAT_BENCHES all_succeed
       \<lparr>DhatArgs.bench = ''all'', extra = []\<rparr> world0)))) =
     [[''--profile''], [''--profile''], [''--profile'']] \<and>
   map (drop 5) (spawn_cmds (added world0 (snd (handle_dhat_on DHAT_BENCHES all_succeed
       \<lparr>DhatArgs.bench = ''build'', extra = [''--x'']\<rparr> world0)))) = [[''--x'']]"
proof -
  have a: "benches_to_run (DhatArgs.bench \<lparr>DhatArgs.bench = ''all'', extra = []\<rparr>) DHAT_BENCHES =
           Inr [''dhat_build'', ''dhat_transformers'', ''dhat_compress'']"
    by (simp add: benches_to_run_def DHAT_BENCHES_def)
  have b: "benches_to_run (DhatArgs.bench \<lparr>DhatArgs.bench = ''build'', extra = [''--x'']\<rparr>)
             DHAT_BENCHES = Inr [''dhat_build'']"
    by (simp add: benches_to_run_def dict_getitem_def DHAT_BENCHES_def)
  from dhat_profile_or_extra [OF a, where w = world0 and ch = all_succeed]
       dhat_profile_or_extra [OF b, where w = world0 and ch = all_succeed]
  show ?thesis by simp
qed

text \<open>
  Claim C4. With the native flag set, every child of a run gets the inherited environment
  in which \<^verbatim>\<open>RUSTFLAGS\<close> is its inherited value (the empty string when the variable is not
  set) followed by \<^verbatim>\<open>" -C target-cpu=native"\<close>, and every other variable is as inherited.
\<close>

theorem native_appends_to_rustflags:
  assumes "RunArgs.native args" and "benches_to_run (RunArgs.bench args) table = Inr bs"
  shows "\<exists>e. spawn_envs (added w (snd (handle_run_on table ch args w))) = replicate (length bs) e \<and>
           map_of e = (map_of (environ w))
             (''RUSTFLAGS'' \<mapsto>
                (case map_of (environ w) ''RUSTFLAGS'' of None \<Rightarrow> [] | Some v \<Rightarrow> v)
                  @ '' -C target-cpu=native'')"
proof -
  let ?e = "dict_setitem ''RUSTFLAGS''
              (dict_get (environ w) ''RUSTFLAGS'' [] @ '' -C target-cpu=native'') (environ w)"
  have m: "map_of ?e = (map_of (environ w))
             (''RUSTFLAGS'' \<mapsto>
                (case map_of (environ w) ''RUSTFLAGS'' of None \<Rightarrow> [] | Some v \<Rightarrow> v)
                  @ '' -C target-cpu=native'')"
    by (simp add: map_of_dict_setitem dict_get_def)
  have "spawn_envs (added w (snd (handle_run_on table ch args w))) = replicate (length bs) ?e"
  proof (cases "bs = []")
    case True
    with assms(2) have "benches_to_run (RunArgs.bench args) table = Inr []" by simp
    from handle_run_on_empty [OF this, of ch w] True show ?thesis
      by (simp add: Let_def)
  next
    case False
    from handle_run_on_char [OF assms(2) False, of ch w] assms(1) obtain rcs where
      l: "length rcs = length bs" and
      h: "handle_run_on table ch args w =
         (Inr (or_all rcs),
          w\<lparr>dicts := (dicts w)(ndicts w := ?e), ndicts := Suc (ndicts w),
            events := events w @
              iterations (\<lambda>b. criterion_cmd b (RunArgs.extra args)) ?e bs rcs\<rparr>)"
      by (auto simp: Let_def)
    show ?thesis
      unfolding h by (simp add: spawn_envs_iterations [OF l])
  qed
  with m show ?thesis by blast
qed

theorem native_appends_to_rustflags_witness:
  "\<exists>e. spawn_envs (added world0 (snd (handle_run_on CRITERION_BENCHES all_succeed
          \<lparr>RunArgs.bench = ''io'', native = True, extra = []\<rparr> world0))) = [e] \<and>
        map_of e ''RUSTFLAGS'' = Some ''-Z foo -C target-cpu=native''"
proof -
  have n: "RunArgs.native \<lparr>RunArgs.bench = ''io'', native = True, extra = []\<rparr>"
    by simp
  have b: "benches_to_run (RunArgs.bench \<lparr>RunArgs.bench = ''io'', native = True, extra = []\<rparr>)
             CRITERION_BENCHES = Inr [''criterion_io'']"
    by (simp add: benches_to_run_def dict_getitem_def CRITERION_BENCHES_def)
  from native_appends_to_rustflags [OF n b, where w = world0 and ch = all_succeed]
  show ?thesis by (auto simp: world0_def)
qed

text \<open>
  Claim C6. A run or a dhat command whose selection resolves to no target prints an error
  message to standard error, returns 1, and starts no child.
\<close>

theorem empty_selection_is_error:
  assumes "benches_to_run (RunArgs.bench rargs) rtable = Inr []"
    and "benches_to_run (DhatArgs.bench dargs) dtable = Inr []"
  shows
    "fst (handle_run_on rtable ch rargs w) = Inr 1 \<and>
     added w (snd (handle_run_on rtable ch rargs w)) = [Stderr ''No criterion benches selected.''] \<and>
     fst (exit_status (handle_run_on rtable ch rargs w)) = 1 \<and>
     fst (handle_dhat_on dtable ch dargs w) = Inr 1 \<and>
     added w (snd (handle_dhat_on dtable ch dargs w)) = [Stderr ''No dhat benches selected.''] \<and>
     fst (exit_status (handle_dhat_on dtable ch dargs w)) = 1"
  unfolding handle_run_on_empty [OF assms(1)] handle_dhat_on_empty [OF assms(2)]
  by (simp add: Let_def exit_status_def)

theorem empty_selection_is_error_witness:
  "fst (handle_run_on [] all_succeed \<lparr>RunArgs.bench = ''all'', native = False, extra = []\<rparr> world0)
     = Inr 1 \<and>
   spawn_cmds (added world0
     (snd (handle_run_on [] all_succeed \<lparr>RunArgs.bench = ''all'', native = False, extra = []\<rparr> world0)))
     = [] \<and>
   fst (handle_dhat_on [] all_succeed \<lparr>DhatArgs.bench = ''all'', extra = []\<rparr> world0) = Inr 1 \<and>
   spawn_cmds (added world0
     (snd (handle_dhat_on [] all_succeed \<lparr>DhatArgs.bench = ''all'', extra = []\<rparr> world0))) = []"
proof -
  have r: "benches_to_run (RunArgs.bench \<lparr>RunArgs.bench = ''all'', native = False, extra = []\<rparr>) []
            = Inr []"
    by (simp add: benches_to_run_def)
  have d: "benches_to_run (DhatArgs.bench \<lparr>DhatArgs.bench = ''all'', extra = []\<rparr>) [] = Inr []"
    by (simp add: benches_to_run_def)
  from empty_selection_is_error [OF r d, where w = world0 and ch = all_succeed]
  show ?thesis by simp
qed


section \<open>What is printed before a child is started\<close>

text \<open>
  Claim C9, as the code has it. Before each child is started, a line
  \<^verbatim>\<open>=== Running <target> ===\<close> (after an empty line) is printed, which names the target
  and not the argument vector: what a run or a dhat command adds to the trace is, for
  each target in turn, that line and then the child. \<open>run_cmd\<close>, which prints the
  argument vector, is not called.
\<close>

theorem banner_before_each_child:
  assumes "benches_to_run (RunArgs.bench rargs) rtable = Inr rs" and "rs \<noteq> []"
    and "benches_to_run (DhatArgs.bench dargs) dtable = Inr ds" and "ds \<noteq> []"
  shows
    "(\<exists>rcs e. length rcs = length rs \<and>
        added w (snd (handle_run_on rtable ch rargs w)) =
          concat (map2 (\<lambda>b rc. [Stdout (CHR 0x0A # ''=== Running '' @ b @ '' ===''),
                                Spawn ([''cargo'', ''bench'', ''--bench'', b] @ RunArgs.extra rargs) e rc])
                    rs rcs)) \<and>
     (\<exists>rcs e. length rcs = length ds \<and>
        added w (snd (handle_dhat_on dtable ch dargs w)) =
          concat (map2 (\<lambda>b rc. [Stdout (CHR 0x0A # ''=== Running '' @ b @ '' ===''),
                                Spawn ([''cargo'', ''bench'', ''--bench'', b, ''--''] @
                                       (if DhatArgs.extra dargs = [] then [''--profile'']
                                        else DhatArgs.extra dargs)) e rc])
                    ds rcs))"
proof -
  from handle_run_on_char [OF assms(1,2), of ch w] obtain rcs e where
    l: "length rcs = length rs" and
    h: "handle_run_on rtable ch rargs w =
       (Inr (or_all rcs),
           w\<lparr>dicts := (dicts w)(ndicts w := e), ndicts := Suc (ndicts w),
             events := events w @ iterations (\<lambda>b. criterion_cmd b (RunArgs.extra rargs)) e rs rcs\<rparr>)"
    unfolding Let_def by blast
  from handle_dhat_on_char [OF assms(3,4), of ch w] obtain dcs where
    l': "length dcs = length ds" and
    h': "handle_dhat_on dtable ch dargs w =
      (Inr (or_all dcs),
       w\<lparr>events := events w @ iterations (\<lambda>b. dhat_cmd b (DhatArgs.extra dargs)) (environ w) ds dcs\<rparr>)"
    by blast
  have 1: "added w (snd (handle_run_on rtable ch rargs w)) =
          concat (map2 (\<lambda>b rc. [Stdout (CHR 0x0A # ''=== Running '' @ b @ '' ===''),
                                Spawn ([''cargo'', ''bench'', ''--bench'', b] @ RunArgs.extra rargs) e rc])
                    rs rcs)"
    unfolding h by (simp add: iterations_def banner_def criterion_cmd_def)
  have 2: "added w (snd (handle_dhat_on dtable ch dargs w)) =
          concat (map2 (\<lambda>b rc. [Stdout (CHR 0x0A # ''=== Running '' @ b @ '' ===''),
                                Spawn ([''cargo'', ''bench'', ''--bench'', b, ''--''] @
                                       (if DhatArgs.extra dargs = [] then [''--profile'']
                                        else DhatArgs.extra dargs)) (environ w) rc])
                    ds dcs)"
    unfolding h' by (simp add: iterations_def banner_def dhat_cmd_def)
  from l 1 l' 2 show ?thesis by blast
qed

theorem banner_before_each_child_witness:
  "added world0 (snd (handle_run_on CRITERION_BENCHES all_succeed
       \<lparr>RunArgs.bench = ''io'', native = False, extra = [''--x'']\<rparr> world0)) =
     [Stdout (CHR 0x0A # ''=== Running criterion_io ===''),
      Spawn [''cargo'', ''bench'', ''--bench'', ''criterion_io'', ''--x'']
        [(''RUSTFLAGS'', ''-Z foo'')] 0] \<and>
   added world0 (snd (handle_dhat_on DHAT_BENCHES all_succeed
       \<lparr>DhatArgs.bench = ''build'', extra = [''--x'']\<rparr> world0)) =
     [Stdout (CHR 0x0A # ''=== Running dhat_build ===''),
      Spawn [''cargo'', ''bench'', ''--bench'', ''dhat_build'', ''--'', ''--x'']
        [(''RUSTFLAGS'', ''-Z foo'')] 0]"
proof -
  have r: "benches_to_run (RunArgs.bench \<lparr>RunArgs.bench = ''io'', native = False, extra = [''--x'']\<rparr>)
             CRITERION_BENCHES = Inr [''criterion_io'']"
    by (simp add: benches_to_run_def dict_getitem_def CRITERION_BENCHES_def)
  have d: "benches_to_run (DhatArgs.bench \<lparr>DhatArgs.bench = ''build'', extra = [''--x'']\<rparr>)
             DHAT_BENCHES = Inr [''dhat_build'']"
    by (simp add: benches_to_run_def dict_getitem_def DHAT_BENCHES_def)
  from banner_before_each_child [OF r _ d, where w = world0 and ch = all_succeed]
  obtain rcs e dcs e' where
    1: "length rcs = 1" "length dcs = 1" and
    2: "added world0 (snd (handle_run_on CRITERION_BENCHES all_succeed
       \<lparr>RunArgs.bench = ''io'', native = False, extra = [''--x'']\<rparr> world0)) =
          concat (map2 (\<lambda>b rc. [Stdout (CHR 0x0A # ''=== Running '' @ b @ '' ===''),
                                Spawn ([''cargo'', ''bench'', ''--bench'', b] @ [''--x'']) e rc])
                    [''criterion_io''] rcs)" and
    3: "added world0 (snd (handle_dhat_on DHAT_BENCHES all_succeed
       \<lparr>DhatArgs.bench = ''build'', extra = [''--x'']\<rparr> world0)) =
          concat (map2 (\<lambda>b rc. [Stdout (CHR 0x0A # ''=== Running '' @ b @ '' ===''),
                                Spawn [''cargo'', ''bench'', ''--bench'', b, ''--'', ''--x''] e' rc])
                    [''dhat_build''] dcs)"
    by auto
  have 4: "spawn_envs (added world0 (snd (handle_run_on CRITERION_BENCHES all_succeed
       \<lparr>RunArgs.bench = ''io'', native = False, extra = [''--x'']\<rparr> world0))) = [[(''RUSTFLAGS'', ''-Z foo'')]]"
       "spawn_codes (added world0 (snd (handle_run_on CRITERION_BENCHES all_succeed
       \<lparr>RunArgs.bench = ''io'', native = False, extra = [''--x'']\<rparr> world0))) = [0]"
       "spawn_envs (added world0 (snd (handle_dhat_on DHAT_BENCHES all_succeed
       \<lparr>DhatArgs.bench = ''build'', extra = [''--x'']\<rparr> world0))) = [[(''RUSTFLAGS'', ''-Z foo'')]]"
       "spawn_codes (added world0 (snd (handle_dhat_on DHAT_BENCHES all_succeed
       \<lparr>DhatArgs.bench = ''build'', extra = [''--x'']\<rparr> world0))) = [0]"
    by (simp_all add: run_defs all_succeed_def added_def)
  from 1 obtain rc dc where rcs: "rcs = [rc]" "dcs = [dc]"
    by (auto simp: length_Suc_conv)
  from 4 have "e = [(''RUSTFLAGS'', ''-Z foo'')]" "rc = 0" "e' = [(''RUSTFLAGS'', ''-Z foo'')]" "dc = 0"
    unfolding 2 3 rcs by simp_all
  with 2 3 rcs show ?thesis
    by simp
qed

theorem argv_not_announced_counterexample:
  "\<not> argv_announced []
       (added world0 (snd (handle_run all_succeed
          \<lparr>RunArgs.bench = ''all'', native = False, extra = []\<rparr> world0)))"
  unfolding run_all_succeed
  by (simp add: added_def world0_def banner_def)

section \<open>The program\<close>

lemma main_run:
  "main ch (Run_cmd given nflag xs) w =
     (case bench_option CRITERION_BENCHES given w of
        (Inl e, w') \<Rightarrow> (Inl e, w')
      | (Inr b, w') \<Rightarrow> handle_run ch \<lparr>RunArgs.bench = b, native = nflag, extra = xs\<rparr> w')"
  by (simp add: main_def parse_args_def split: prod.splits sum.splits)

lemma main_dhat:
  "main ch (Dhat_cmd given xs) w =
     (case bench_option DHAT_BENCHES given w of
        (Inl e, w') \<Rightarrow> (Inl e, w')
      | (Inr b, w') \<Rightarrow> handle_dhat ch \<lparr>DhatArgs.bench = b, extra = xs\<rparr> w')"
  by (simp add: main_def parse_args_def split: prod.splits sum.splits)

lemma main_list:
  "main ch List_cmd w = (case handle_list w of (code, w') \<Rightarrow> (Inr code, w'))"
  by (simp add: main_def parse_args_def)

lemma bench_option_rejects:
  assumes "b \<noteq> ''all''" and "b \<notin> fst ` set table"
  shows "bench_option table (Some b) w =
           (Inl (SystemExit 2),
            w\<lparr>events := events w @ [Stderr (''argument --bench: invalid choice: '' @ b)]\<rparr>)"
  using assms by (simp add: bench_option_def bench_choices_def print_err_def)

lemma bench_option_world:
  "\<exists>evs. snd (bench_option table given w) = w\<lparr>events := events w @ evs\<rparr> \<and> spawn_cmds evs = []"
proof (cases given)
  case None
  then show ?thesis
    by (intro exI [of _ "[]"]) (simp add: bench_option_def)
next
  case (Some b)
  show ?thesis
  proof (cases "b \<in> set (bench_choices table)")
    case True
    with Some show ?thesis
      by (intro exI [of _ "[]"]) (simp add: bench_option_def)
  next
    case False
    with Some show ?thesis
      by (intro exI [of _ "[Stderr (''argument --bench: invalid choice: '' @ b)]"])
         (simp add: bench_option_def print_err_def)
  qed
qed

lemma benches_to_run_unregistered:
  assumes "k \<noteq> ''all''" and "k \<notin> fst ` set table"
  shows "benches_to_run k table = Inl (KeyError k)"
proof -
  from assms(2) have "map_of table k = None"
    by (simp add: map_of_eq_None_iff)
  with assms(1) show ?thesis
    by (simp add: benches_to_run_def dict_getitem_def)
qed

lemma bench_option_accepts:
  assumes "bench_option table given w = (Inr b, w')"
  shows "b \<in> set (bench_choices table) \<and> w' = w"
  using assms
  by (auto simp: bench_option_def bench_choices_def split: option.splits if_splits)

lemma registered_selection_resolves:
  assumes "b \<in> set (bench_choices table)" and "table \<noteq> []"
  shows "\<exists>bs. benches_to_run b table = Inr bs \<and> bs \<noteq> []"
proof (cases "b = ''all''")
  case True
  with assms(2) show ?thesis by (simp add: benches_to_run_def)
next
  case False
  with assms(1) have "b \<in> fst ` set table"
    by (simp add: bench_choices_def)
  then obtain v where "map_of table b = Some v"
    by (metis domD dom_map_of_conv_image_fst)
  with False show ?thesis
    by (simp add: benches_to_run_def dict_getitem_def)
qed

text \<open>Through \<open>main\<close> the selection is always \<^verbatim>\<open>"all"\<close> or a key of the registry, the
  resolved list is never empty, and the status returned by a run or a dhat command is
  the bitwise OR of the return codes of the children it started.\<close>

lemma main_status_is_or:
  assumes "main ch cl w = (Inr code, w')" and "cl \<noteq> List_cmd"
  shows "code = or_all (spawn_codes (added w w'))"
proof (cases cl)
  case (Run_cmd given nflag xs)
  obtain r w1 where b: "bench_option CRITERION_BENCHES given w = (r, w1)"
    by (cases "bench_option CRITERION_BENCHES given w")
  with assms(1) Run_cmd obtain sel where r: "r = Inr sel"
    by (cases r) (auto simp: main_run)
  from bench_option_accepts [OF b [unfolded r]] have c: "sel \<in> set (bench_choices CRITERION_BENCHES)"
    and w1: "w1 = w" by simp_all
  from registered_selection_resolves [OF c] obtain bs where
    bs: "benches_to_run (RunArgs.bench \<lparr>RunArgs.bench = sel, native = nflag, extra = xs\<rparr>)
           CRITERION_BENCHES = Inr bs" "bs \<noteq> []"
    by (auto simp: CRITERION_BENCHES_def)
  from handle_run_on_char [OF bs, of ch w] obtain rcs e where
    l: "length rcs = length bs" and
    h: "handle_run ch \<lparr>RunArgs.bench = sel, native = nflag, extra = xs\<rparr> w =
         (Inr (or_all rcs),
          w\<lparr>dicts := (dicts w)(ndicts w := e), ndicts := Suc (ndicts w),
            events := events w @ iterations (\<lambda>b. criterion_cmd b xs) e bs rcs\<rparr>)"
    unfolding handle_run_def Let_def by auto
  from assms(1) Run_cmd b r w1 h show ?thesis
    by (auto simp: main_run spawn_codes_iterations [OF l])
next
  case (Dhat_cmd given xs)
  obtain r w1 where b: "bench_option DHAT_BENCHES given w = (r, w1)"
    by (cases "bench_option DHAT_BENCHES given w")
  with assms(1) Dhat_cmd obtain sel where r: "r = Inr sel"
    by (cases r) (auto simp: main_dhat)
  from bench_option_accepts [OF b [unfolded r]] have c: "sel \<in> set (bench_choices DHAT_BENCHES)"
    and w1: "w1 = w" by simp_all
  from registered_selection_resolves [OF c] obtain bs where
    bs: "benches_to_run (DhatArgs.bench \<lparr>DhatArgs.bench = sel, extra = xs\<rparr>) DHAT_BENCHES = Inr bs"
        "bs \<noteq> []"
    by (auto simp: DHAT_BENCHES_def)
  from handle_dhat_on_char [OF bs, of ch w] obtain rcs where
    l: "length rcs = length bs" and
    h: "handle_dhat ch \<lparr>DhatArgs.bench = sel, extra = xs\<rparr> w =
         (Inr (or_all rcs),
          w\<lparr>events := events w @ iterations (\<lambda>b. dhat_cmd b xs) (environ w) bs rcs\<rparr>)"
    unfolding handle_dhat_def by auto
  from assms(1) Dhat_cmd b r w1 h show ?thesis
    by (auto simp: main_dhat spawn_codes_iterations [OF l])
next
  case List_cmd
  with assms(2) show ?thesis by simp
qed

lemma main_never_key_error: "fst (main ch cl w) \<noteq> Inl (KeyError k)"
proof (cases cl)
  case (Run_cmd given nflag xs)
  obtain r w1 where b: "bench_option CRITERION_BENCHES given w = (r, w1)"
    by (cases "bench_option CRITERION_BENCHES given w")
  show ?thesis
  proof (cases r)
    case (Inl err)
    with b have "err = SystemExit 2"
      by (auto simp: bench_option_def split: option.splits if_splits)
    with Inl b Run_cmd show ?thesis by (simp add: main_run)
  next
    case (Inr sel)
    from bench_option_accepts [OF b [unfolded Inr]]
    have c: "sel \<in> set (bench_choices CRITERION_BENCHES)" by simp
    from registered_selection_resolves [OF c] obtain bs where
      bs: "benches_to_run (RunArgs.bench \<lparr>RunArgs.bench = sel, native = nflag, extra = xs\<rparr>)
             CRITERION_BENCHES = Inr bs" "bs \<noteq> []"
      by (auto simp: CRITERION_BENCHES_def)
    from handle_run_on_char [OF bs, of ch w1] obtain c where
      "fst (handle_run ch \<lparr>RunArgs.bench = sel, native = nflag, extra = xs\<rparr> w1) = Inr c"
      unfolding handle_run_def Let_def by auto
    with Inr b Run_cmd show ?thesis by (simp add: main_run)
  qed
next
  case (Dhat_cmd given xs)
  obtain r w1 where b: "bench_option DHAT_BENCHES given w = (r, w1)"
    by (cases "bench_option DHAT_BENCHES given w")
  show ?thesis
  proof (cases r)
    case (Inl err)
    with b have "err = SystemExit 2"
      by (auto simp: bench_option_def split: option.splits if_splits)
    with Inl b Dhat_cmd show ?thesis by (simp add: main_dhat)
  next
    case (Inr sel)
    from bench_option_accepts [OF b [unfolded Inr]]
    have c: "sel \<in> set (bench_choices DHAT_BENCHES)" by simp
    from registered_selection_resolves [OF c] obtain bs where
      bs: "benches_to_run (DhatArgs.bench \<lparr>DhatArgs.bench = sel, extra = xs\<rparr>) DHAT_BENCHES = Inr bs"
          "bs \<noteq> []"
      by (auto simp: DHAT_BENCHES_def)
    from handle_dhat_on_char [OF bs, of ch w1] obtain c where
      "fst (handle_dhat ch \<lparr>DhatArgs.bench = sel, extra = xs\<rparr> w1) = Inr c"
      unfolding handle_dhat_def by auto
    with Inr b Dhat_cmd show ?thesis by (simp add: main_dhat)
  qed
next
  case List_cmd
  then show ?thesis by (simp add: main_list handle_list_char)
qed

section \<open>An unknown selection\<close>

text \<open>
  Claim C2, as the code has it. A selection that is neither \<^verbatim>\<open>"all"\<close> nor a key of the
  registry of the command is outside the \<^verbatim>\<open>choices\<close> of \<^verbatim>\<open>--bench\<close>: the argument parser
  reports it on standard error and the process exits with status 2, before any handler
  runs and so before any child is started. A handler that is given such a selection
  raises \<^verbatim>\<open>KeyError\<close> from the lookup in the table, having printed nothing and started
  no child.
\<close>

theorem unknown_selection_rejected:
  assumes "b \<noteq> ''all''" and "b \<notin> fst ` set CRITERION_BENCHES"
    and "d \<noteq> ''all''" and "d \<notin> fst ` set DHAT_BENCHES"
    and "k \<noteq> ''all''" and "k \<notin> fst ` set table"
    and "RunArgs.bench rargs = k" and "DhatArgs.bench dargs = k"
  shows
    "script ch (Run_cmd (Some b) nflag xs) w =
       (2, w\<lparr>events := events w @ [Stderr (''argument --bench: invalid choice: '' @ b)]\<rparr>) \<and>
     script ch (Dhat_cmd (Some d) xs) w =
       (2, w\<lparr>events := events w @ [Stderr (''argument --bench: invalid choice: '' @ d)]\<rparr>) \<and>
     fst (handle_run_on table ch rargs w) = Inl (KeyError k) \<and>
     added w (snd (handle_run_on table ch rargs w)) = [] \<and>
     handle_dhat_on table ch dargs w = (Inl (KeyError k), w)"
proof -
  have 1: "script ch (Run_cmd (Some b) nflag xs) w =
       (2, w\<lparr>events := events w @ [Stderr (''argument --bench: invalid choice: '' @ b)]\<rparr>)"
    by (simp add: script_def main_run bench_option_rejects [OF assms(1,2)] exit_status_def)
  have 2: "script ch (Dhat_cmd (Some d) xs) w =
       (2, w\<lparr>events := events w @ [Stderr (''argument --bench: invalid choice: '' @ d)]\<rparr>)"
    by (simp add: script_def main_dhat bench_option_rejects [OF assms(3,4)] exit_status_def)
  have r: "benches_to_run (RunArgs.bench rargs) table = Inl (KeyError k)"
    using benches_to_run_unregistered [OF assms(5,6)] assms(7) by simp
  have d: "benches_to_run (DhatArgs.bench dargs) table = Inl (KeyError k)"
    using benches_to_run_unregistered [OF assms(5,6)] assms(8) by simp
  have 3: "fst (handle_run_on table ch rargs w) = Inl (KeyError k)"
    unfolding handle_run_on_raises [OF r] by (simp add: Let_def)
  have 4: "added w (snd (handle_run_on table ch rargs w)) = []"
    unfolding handle_run_on_raises [OF r] by (simp add: Let_def added_def)
  have 5: "handle_dhat_on table ch dargs w = (Inl (KeyError k), w)"
    by (rule handle_dhat_on_raises [OF d])
  from 1 2 3 4 5 show ?thesis by blast
qed

theorem unknown_selection_rejected_witness:
  "script all_succeed (Run_cmd (Some ''build'') True []) world0 =
     (2, world0\<lparr>events := [Stderr ''argument --bench: invalid choice: build'']\<rparr>) \<and>
   script all_succeed (Dhat_cmd (Some ''io'') []) world0 =
     (2, world0\<lparr>events := [Stderr ''argument --bench: invalid choice: io'']\<rparr>) \<and>
   fst (handle_run_on CRITERION_BENCHES all_succeed
          \<lparr>RunArgs.bench = ''nope'', native = False, extra = []\<rparr> world0) = Inl (KeyError ''nope'') \<and>
   handle_dhat_on CRITERION_BENCHES all_succeed \<lparr>DhatArgs.bench = ''nope'', extra = []\<rparr> world0 =
     (Inl (KeyError ''nope''), world0)"
proof -
  have 1: "''build'' \<noteq> ''all''" "''build'' \<notin> fst ` set CRITERION_BENCHES"
    by (simp_all add: CRITERION_BENCHES_def)
  have 2: "''io'' \<noteq> ''all''" "''io'' \<notin> fst ` set DHAT_BENCHES"
    by (simp_all add: DHAT_BENCHES_def)
  have 3: "''nope'' \<noteq> ''all''" "''nope'' \<notin> fst ` set CRITERION_BENCHES"
    by (simp_all add: CRITERION_BENCHES_def)
  have 4: "RunArgs.bench \<lparr>RunArgs.bench = ''nope'', native = False, extra = []\<rparr> = ''nope''"
    "DhatArgs.bench \<lparr>DhatArgs.bench = ''nope'', extra = []\<rparr> = ''nope''"
    by simp_all
  from unknown_selection_rejected [OF 1 2 3 4, where w = world0 and ch = all_succeed
      and nflag = True and xs = "[]"]
  show ?thesis by (simp add: world0_def)
qed

theorem unknown_selection_status_counterexample:
  "''nope'' \<noteq> ''all'' \<and> ''nope'' \<notin> fst ` set CRITERION_BENCHES \<and>
   fst (script all_succeed (Run_cmd (Some ''nope'') False []) world0) \<noteq> 1"
  by (simp add: script_def main_run bench_option_def bench_choices_def print_err_def
      exit_status_def CRITERION_BENCHES_def)

section \<open>The list command\<close>

text \<open>
  Claim C8. The list command returns 0, starts no child, and prints both registries: a
  heading for each, and under it one line \<^verbatim>\<open>key -> target\<close> for each entry, in order.
\<close>

theorem list_prints_both_registries:
  "main ch List_cmd w =
     (Inr 0,
      w\<lparr>events := events w @
         [Stdout ''Criterion benches:'',
          Stdout ''  pipeline     -> criterion_pipeline'',
          Stdout ''  transformers -> criterion_transformers'',
          Stdout ''  io           -> criterion_io'',
          Stdout (CHR 0x0A # ''Dhat benches:''),
          Stdout ''  build        -> dhat_build'',
          Stdout ''  transformers -> dhat_transformers'',
          Stdout ''  compress     -> dhat_compress'']\<rparr>) \<and>
   fst (script ch List_cmd w) = 0 \<and>
   spawn_cmds (added w (snd (script ch List_cmd w))) = [] \<and>
   added w (snd (handle_list w)) =
     Stdout ''Criterion benches:'' #
     map (\<lambda>kv. Stdout (''  '' @ fst kv @ replicate (12 - length (fst kv)) CHR '' '' @ '' -> '' @ snd kv))
       CRITERION_BENCHES @
     Stdout (CHR 0x0A # ''Dhat benches:'') #
     map (\<lambda>kv. Stdout (''  '' @ fst kv @ replicate (12 - length (fst kv)) CHR '' '' @ '' -> '' @ snd kv))
       DHAT_BENCHES"
proof -
  have 1: "main ch List_cmd w =
     (Inr 0,
      w\<lparr>events := events w @
         [Stdout ''Criterion benches:'',
          Stdout ''  pipeline     -> criterion_pipeline'',
          Stdout ''  transformers -> criterion_transformers'',
          Stdout ''  io           -> criterion_io'',
          Stdout (CHR 0x0A # ''Dhat benches:''),
          Stdout ''  build        -> dhat_build'',
          Stdout ''  transformers -> dhat_transformers'',
          Stdout ''  compress     -> dhat_compress'']\<rparr>)"
    by (simp add: main_list handle_list_char CRITERION_BENCHES_def DHAT_BENCHES_def
        list_line_def ljust_def eval_nat_numeral)
  have 2: "fst (script ch List_cmd w) = 0"
    by (simp add: script_def 1 exit_status_def)
  have 3: "spawn_cmds (added w (snd (script ch List_cmd w))) = []"
    by (simp add: script_def 1 exit_status_def)
  have 4: "added w (snd (handle_list w)) =
     Stdout ''Criterion benches:'' #
     map (\<lambda>kv. Stdout (''  '' @ fst kv @ replicate (12 - length (fst kv)) CHR '' '' @ '' -> '' @ snd kv))
       CRITERION_BENCHES @
     Stdout (CHR 0x0A # ''Dhat benches:'') #
     map (\<lambda>kv. Stdout (''  '' @ fst kv @ replicate (12 - length (fst kv)) CHR '' '' @ '' -> '' @ snd kv))
       DHAT_BENCHES"
    by (simp add: handle_list_char list_line_def ljust_def comp_def)
  from 1 2 3 4 show ?thesis by blast
qed

section \<open>The environment of the process\<close>

lemma handle_run_world:
  "\<exists>e evs. snd (handle_run ch args w) =
       w\<lparr>dicts := (dicts w)(ndicts w := e), ndicts := Suc (ndicts w),
         events := events w @ evs\<rparr>"
  using handle_run_on_world [of CRITERION_BENCHES ch args w]
  unfolding handle_run_def by blast

lemma handle_dhat_world:
  "\<exists>evs. snd (handle_dhat ch args w) = w\<lparr>events := events w @ evs\<rparr>"
  using handle_dhat_on_world [of DHAT_BENCHES ch args w]
  unfolding handle_dhat_def by blast

lemma main_environ: "environ (snd (main ch cl w)) = environ w"
proof (cases cl)
  case (Run_cmd given nflag xs)
  obtain r w' where b: "bench_option CRITERION_BENCHES given w = (r, w')"
    by (cases "bench_option CRITERION_BENCHES given w")
  from bench_option_world [of CRITERION_BENCHES given w] b
  have e: "environ w' = environ w" by auto
  show ?thesis
  proof (cases r)
    case (Inl err)
    with Run_cmd b e show ?thesis by (simp add: main_run)
  next
    case (Inr sel)
    from handle_run_world [of ch "\<lparr>RunArgs.bench = sel, native = nflag, extra = xs\<rparr>" w']
    have "environ (snd (handle_run ch \<lparr>RunArgs.bench = sel, native = nflag, extra = xs\<rparr> w')) = environ w'"
      by auto
    with Inr Run_cmd b e show ?thesis by (simp add: main_run)
  qed
next
  case (Dhat_cmd given xs)
  obtain r w' where b: "bench_option DHAT_BENCHES given w = (r, w')"
    by (cases "bench_option DHAT_BENCHES given w")
  from bench_option_world [of DHAT_BENCHES given w] b
  have e: "environ w' = environ w" by auto
  show ?thesis
  proof (cases r)
    case (Inl err)
    with Dhat_cmd b e show ?thesis by (simp add: main_dhat)
  next
    case (Inr sel)
    from handle_dhat_world [of ch "\<lparr>DhatArgs.bench = sel, extra = xs\<rparr>" w']
    have "environ (snd (handle_dhat ch \<lparr>DhatArgs.bench = sel, extra = xs\<rparr> w')) = environ w'"
      by auto
    with Inr Dhat_cmd b e show ?thesis by (simp add: main_dhat)
  qed
next
  case List_cmd
  then show ?thesis by (simp add: main_list handle_list_char)
qed

text \<open>
  Claim C10, as the code has it. No command changes the environment of the process.
  A run command copies the inherited environment once, before its loop, and writes the
  overlay into that copy, which is a new object and not the environment itself; every
  child of the command is started with the items of that one copy, so all of them get
  the same environment. A dhat command makes no copy and its children inherit the
  environment of the process. Dictionaries that existed before are left as they were.
\<close>

theorem environment_copied_once:
  "environ (snd (main ch cl w)) = environ w \<and>
   environ (snd (handle_run_on rtable ch rargs w)) = environ w \<and>
   environ (snd (handle_dhat_on dtable ch dargs w)) = environ w \<and>
   environ (snd (handle_list w)) = environ w \<and>
   copies_made w (snd (handle_run_on rtable ch rargs w)) = 1 \<and>
   copies_made w (snd (handle_dhat_on dtable ch dargs w)) = 0 \<and>
   dicts (snd (handle_run_on rtable ch rargs w)) =
     (dicts w)(ndicts w :=
        (if RunArgs.native rargs
         then dict_setitem ''RUSTFLAGS''
                (dict_get (environ w) ''RUSTFLAGS'' [] @ '' -C target-cpu=native'') (environ w)
         else environ w)) \<and>
   dicts (snd (handle_dhat_on dtable ch dargs w)) = dicts w \<and>
   spawn_envs (added w (snd (handle_run_on rtable ch rargs w))) =
     replicate (length (spawn_cmds (added w (snd (handle_run_on rtable ch rargs w)))))
       (if RunArgs.native rargs
        then dict_setitem ''RUSTFLAGS''
               (dict_get (environ w) ''RUSTFLAGS'' [] @ '' -C target-cpu=native'') (environ w)
        else environ w) \<and>
   spawn_envs (added w (snd (handle_dhat_on dtable ch dargs w))) =
     replicate (length (spawn_cmds (added w (snd (handle_dhat_on dtable ch dargs w))))) (environ w)"
proof -
  let ?e = "if RunArgs.native rargs
         then dict_setitem ''RUSTFLAGS''
                (dict_get (environ w) ''RUSTFLAGS'' [] @ '' -C target-cpu=native'') (environ w)
         else environ w"
  have r: "\<exists>evs. snd (handle_run_on rtable ch rargs w) =
       w\<lparr>dicts := (dicts w)(ndicts w := ?e), ndicts := Suc (ndicts w),
         events := events w @ evs\<rparr> \<and>
     spawn_envs evs = replicate (length (spawn_cmds evs)) ?e"
  proof (cases "benches_to_run (RunArgs.bench rargs) rtable")
    case (Inl err)
    from handle_run_on_raises [OF Inl, of ch w] show ?thesis
      unfolding Let_def by (intro exI [of _ "[]"]) simp
  next
    case (Inr bs)
    show ?thesis
    proof (cases "bs = []")
      case True
      with Inr have "benches_to_run (RunArgs.bench rargs) rtable = Inr []" by simp
      from handle_run_on_empty [OF this, of ch w] show ?thesis
        unfolding Let_def
        by (intro exI [of _ "[Stderr ''No criterion benches selected.'']"]) simp
    next
      case False
      from handle_run_on_char [OF Inr False, of ch w] obtain rcs where
        l: "length rcs = length bs" and
        h: "handle_run_on rtable ch rargs w =
          (Inr (or_all rcs),
           w\<lparr>dicts := (dicts w)(ndicts w := ?e), ndicts := Suc (ndicts w),
             events := events w @
               iterations (\<lambda>b. criterion_cmd b (RunArgs.extra rargs)) ?e bs rcs\<rparr>)"
        unfolding Let_def by blast
      show ?thesis
        unfolding h
        by (intro exI [of _ "iterations (\<lambda>b. criterion_cmd b (RunArgs.extra rargs)) ?e bs rcs"])
           (simp add: spawn_envs_iterations [OF l] spawn_cmds_iterations [OF l])
    qed
  qed
  then obtain evs where
    rw: "snd (handle_run_on rtable ch rargs w) =
       w\<lparr>dicts := (dicts w)(ndicts w := ?e), ndicts := Suc (ndicts w),
         events := events w @ evs\<rparr>" and
    re: "spawn_envs evs = replicate (length (spawn_cmds evs)) ?e"
    by blast
  from handle_dhat_on_world [of dtable ch dargs w] obtain dvs where
    dw: "snd (handle_dhat_on dtable ch dargs w) = w\<lparr>events := events w @ dvs\<rparr>" and
    de: "spawn_envs dvs = replicate (length (spawn_cmds dvs)) (environ w)"
    by blast
  have 1: "environ (snd (main ch cl w)) = environ w"
    by (rule main_environ)
  have 2: "environ (snd (handle_run_on rtable ch rargs w)) = environ w"
    unfolding rw by simp
  have 3: "environ (snd (handle_dhat_on dtable ch dargs w)) = environ w"
    unfolding dw by simp
  have 4: "environ (snd (handle_list w)) = environ w"
    by (simp add: handle_list_char)
  have 5: "copies_made w (snd (handle_run_on rtable ch rargs w)) = 1"
    unfolding rw by (simp add: copies_made_def)
  have 6: "copies_made w (snd (handle_dhat_on dtable ch dargs w)) = 0"
    unfolding dw by (simp add: copies_made_def)
  have 7: "dicts (snd (handle_run_on rtable ch rargs w)) = (dicts w)(ndicts w := ?e)"
    unfolding rw by simp
  have 8: "dicts (snd (handle_dhat_on dtable ch dargs w)) = dicts w"
    unfolding dw by simp
  have 9: "spawn_envs (added w (snd (handle_run_on rtable ch rargs w))) =
     replicate (length (spawn_cmds (added w (snd (handle_run_on rtable ch rargs w))))) ?e"
    unfolding rw using re by simp
  have 10: "spawn_envs (added w (snd (handle_dhat_on dtable ch dargs w))) =
     replicate (length (spawn_cmds (added w (snd (handle_dhat_on dtable ch dargs w))))) (environ w)"
    unfolding dw using de by simp
  from 1 2 3 4 5 6 7 8 9 10 show ?thesis by blast
qed

theorem copy_per_invocation_counterexample:
  "length (spawn_cmds (added world0 (snd (handle_run all_succeed
      \<lparr>RunArgs.bench = ''all'', native = False, extra = []\<rparr> world0)))) = 3 \<and>
   copies_made world0 (snd (handle_run all_succeed
      \<lparr>RunArgs.bench = ''all'', native = False, extra = []\<rparr> world0)) = 1 \<and>
   copies_made world0 (snd (handle_run all_succeed
      \<lparr>RunArgs.bench = ''all'', native = False, extra = []\<rparr> world0)) \<noteq>
   length (spawn_cmds (added world0 (snd (handle_run all_succeed
      \<lparr>RunArgs.bench = ''all'', native = False, extra = []\<rparr> world0))))"
  unfolding run_all_succeed
  by (simp add: added_def copies_made_def world0_def)

end
